theory Spec2Isabelle
  imports Complex_Main "HOL-Library.AList"
begin

section \<open>Market sessions (src/src/market\_hours.py)\<close>

text \<open>
  \<^verbatim>\<open>datetime.time\<close> values are naive here (\<^verbatim>\<open>dt.time()\<close> drops the zone, the
  configured boundaries are \<^verbatim>\<open>time(hour, minute)\<close>), and Python compares naive times
  as the tuples (hour, minute, second, microsecond).
\<close>

record pytime =
  hour :: nat
  minute :: nat
  second :: nat
  microsecond :: nat

definition time_lt :: "pytime \<Rightarrow> pytime \<Rightarrow> bool" where
  "time_lt a b =
     (hour a < hour b \<or>
      (hour a = hour b \<and>
       (minute a < minute b \<or>
        (minute a = minute b \<and>
         (second a < second b \<or>
          (second a = second b \<and> microsecond a < microsecond b))))))"

definition time_le :: "pytime \<Rightarrow> pytime \<Rightarrow> bool" where
  "time_le a b = (time_lt a b \<or>
     (hour a = hour b \<and> minute a = minute b \<and> second a = second b \<and>
      microsecond a = microsecond b))"

definition hhmm :: "nat \<Rightarrow> nat \<Rightarrow> pytime" where
  \<comment> \<open>\<^verbatim>\<open>time(hour, minute)\<close>, as \<^verbatim>\<open>_parse_time\<close> builds the boundaries\<close>
  "hhmm h m = \<lparr>hour = h, minute = m, second = 0, microsecond = 0\<rparr>"

datatype MarketSession = PRE_MARKET | MARKET | POST_MARKET | CLOSED

record MarketHours =
  pre_market_start :: pytime
  market_open :: pytime
  market_close :: pytime
  post_market_end :: pytime

text \<open>
  An instant after \<^verbatim>\<open>astimezone(self.eastern_tz)\<close>: the weekday of the exchange-local
  date (Monday is 0, Sunday is 6) and the exchange-local time of day. The conversion
  itself is pytz's.
\<close>

record eastern_dt =
  weekday :: nat
  time_of_day :: pytime

definition get_current_session :: "MarketHours \<Rightarrow> eastern_dt \<Rightarrow> MarketSession" where
  "get_current_session mh dt =
     (if weekday dt \<ge> 5 then CLOSED
      else let current_time = time_of_day dt in
        if time_le (pre_market_start mh) current_time \<and> time_lt current_time (market_open mh)
          then PRE_MARKET
        else if time_le (market_open mh) current_time \<and> time_lt current_time (market_close mh)
          then MARKET
        else if time_le (market_close mh) current_time \<and> time_lt current_time (post_market_end mh)
          then POST_MARKET
        else CLOSED)"

text \<open>
  The dictionary of \<^verbatim>\<open>get_session_info\<close>, but for its \<^verbatim>\<open>current_time\<close>, the instant
  printed as a string.
\<close>

record session_info =
  session :: MarketSession
  is_market_open :: bool
  is_extended_hours :: bool
  is_trading_allowed :: bool
  is_weekend :: bool

definition get_session_info :: "MarketHours \<Rightarrow> eastern_dt \<Rightarrow> session_info" where
  "get_session_info mh dt =
     (let session = get_current_session mh dt in
      \<lparr>session = session,
       is_market_open = (session = MARKET),
       is_extended_hours = (session \<in> {PRE_MARKET, POST_MARKET}),
       is_trading_allowed = (session \<noteq> CLOSED),
       is_weekend = (weekday dt \<ge> 5)\<rparr>)"

record TradingSessionManager =
  market_hours :: MarketHours
  enable_pre_market :: bool
  enable_post_market :: bool

definition can_trade_now :: "TradingSessionManager \<Rightarrow> eastern_dt \<Rightarrow> bool" where
  "can_trade_now sm dt =
     (let session = get_current_session (market_hours sm) dt in
      if session = MARKET then True
      else if session = PRE_MARKET then enable_pre_market sm
      else if session = POST_MARKET then enable_post_market sm
      else False)"

datatype order_type = MKT | LMT

definition get_order_type :: "TradingSessionManager \<Rightarrow> eastern_dt \<Rightarrow> order_type" where
  "get_order_type sm dt =
     (let session = get_current_session (market_hours sm) dt in
      if session = MARKET then MKT
      else if session \<in> {PRE_MARKET, POST_MARKET} then LMT
      else LMT)"

definition get_trading_reason :: "TradingSessionManager \<Rightarrow> MarketSession \<Rightarrow> bool \<Rightarrow> string" where
  "get_trading_reason sm sess ok =
     (if \<not> ok then
        (if sess = CLOSED then ''Market is closed''
         else if sess = PRE_MARKET \<and> \<not> enable_pre_market sm then ''Pre-market trading disabled''
         else if sess = POST_MARKET \<and> \<not> enable_post_market sm then ''Post-market trading disabled''
         else ''Unknown'')
      else
        (if sess = MARKET then ''Regular market hours - using market orders''
         else if sess = PRE_MARKET then ''Extended hours (pre_market) - using limit orders''
         else if sess = POST_MARKET then ''Extended hours (post_market) - using limit orders''
         else ''Unknown''))"

record trading_decision =
  info :: session_info
  can_trade :: bool
  recommended_order_type :: "order_type option"
  reason :: string

definition get_trading_decision :: "TradingSessionManager \<Rightarrow> eastern_dt \<Rightarrow> trading_decision" where
  "get_trading_decision sm dt =
     (let session_info = get_session_info (market_hours sm) dt;
          can_trade = can_trade_now sm dt;
          order_type = (if can_trade then Some (get_order_type sm dt) else None)
      in \<lparr>info = session_info,
          can_trade = can_trade,
          recommended_order_type = order_type,
          reason = get_trading_reason sm (session session_info) can_trade\<rparr>)"

text \<open>The configuration of config.yaml's defaults, and two instants of a Tuesday.\<close>

definition default_hours :: MarketHours where
  "default_hours = \<lparr>pre_market_start = hhmm 4 0, market_open = hhmm 9 30,
     market_close = hhmm 16 0, post_market_end = hhmm 20 0\<rparr>"

definition tuesday_at :: "nat \<Rightarrow> nat \<Rightarrow> eastern_dt" where
  "tuesday_at h m = \<lparr>weekday = 1, time_of_day = hhmm h m\<rparr>"

section \<open>Sequential validation (src/src/trading\_engine.py)\<close>

datatype PositionState = FLAT | LONG | SHORT

record PositionInfo =
  symbol :: string
  state :: PositionState
  quantity :: int
  avg_price :: real
  last_updated :: int

definition mk_PositionInfo :: "string \<Rightarrow> PositionState \<Rightarrow> int \<Rightarrow> real \<Rightarrow> int \<Rightarrow> PositionInfo" where
  \<comment> \<open>the dataclass constructor with its \<^verbatim>\<open>__post_init__\<close>\<close>
  "mk_PositionInfo sy st q ap t =
     \<lparr>symbol = sy, state = (if q = 0 then FLAT else st), quantity = q,
      avg_price = ap, last_updated = t\<rparr>"

text \<open>
  \<^verbatim>\<open>str.upper\<close> on the ASCII letters; the alert strings modelled here are ASCII.
\<close>

definition upper_char :: "char \<Rightarrow> char" where
  "upper_char c =
     (case map_of (zip ''abcdefghijklmnopqrstuvwxyz'' ''ABCDEFGHIJKLMNOPQRSTUVWXYZ'') c of
        Some u \<Rightarrow> u | None \<Rightarrow> c)"

definition upper :: "string \<Rightarrow> string" where
  "upper s = map upper_char s"

datatype log_entry =
    Error_invalid_action string PositionState string
  | Error_msg string
  | Warning_msg string
  | Info_msg string
  | Info_position_update string int real
  | Info_order_resubmitted int string real nat

definition valid_transitions :: "PositionState \<Rightarrow> string list" where
  "valid_transitions st =
     (case st of FLAT \<Rightarrow> [''BUY'', ''SHORT''] | LONG \<Rightarrow> [''SELL''] | SHORT \<Rightarrow> [''COVER''])"

text \<open>
  \<^verbatim>\<open>_validate_sequential_action\<close> reads the position and writes only to the logger:
  the model returns the verdict and the lines logged.
\<close>

definition validate_sequential_action :: "PositionInfo \<Rightarrow> string \<Rightarrow> bool \<times> log_entry list" where
  "validate_sequential_action position action0 =
     (let action = upper action0 in
      if action \<notin> set (valid_transitions (state position))
      then (False, [Error_invalid_action action (state position) (symbol position)])
      else (True, []))"

section \<open>Quotes (src/src/ibkr\_client.py)\<close>

text \<open>
  A price field of the broker library's ticker is a Python float, possibly \<^verbatim>\<open>nan\<close>, or
  \<^verbatim>\<open>None\<close>. Finite floats are taken as the reals they denote: the arithmetic of this
  development is exact, where the program's is IEEE double precision.
\<close>

datatype pynum = PyNone | NaN | Num real

fun truthy :: "pynum \<Rightarrow> bool" where
  "truthy PyNone = False"
| "truthy NaN = True"
| "truthy (Num x) = (x \<noteq> 0)"

fun gt0 :: "pynum \<Rightarrow> bool" where
  \<comment> \<open>\<^verbatim>\<open>x > 0\<close>, evaluated only behind \<^verbatim>\<open>x and ...\<close>, so never on \<^verbatim>\<open>None\<close>\<close>
  "gt0 (Num x) = (x > 0)"
| "gt0 _ = False"

fun float_val :: "pynum \<Rightarrow> real" where
  \<comment> \<open>the number a float denotes; read only where \<open>gt0\<close> has held, which \<open>Num\<close> alone passes\<close>
  "float_val (Num x) = x"
| "float_val _ = 0"

record Ticker =
  marketPrice :: pynum
  bid :: pynum
  ask :: pynum
  last_trade :: pynum

text \<open>
  \<^verbatim>\<open>get_market_price\<close> from the ticker that \<^verbatim>\<open>reqMktData\<close> hands back (field
  \<open>last_trade\<close> is \<^verbatim>\<open>ticker.last\<close>); \<open>None\<close> for the ticker is an exception raised
  in the \<^verbatim>\<open>try\<close> block, which the method turns into \<^verbatim>\<open>None\<close>.
\<close>

definition get_market_price :: "Ticker option \<Rightarrow> real option" where
  "get_market_price tk =
     (case tk of
        None \<Rightarrow> None
      | Some ticker \<Rightarrow>
          let price = marketPrice ticker in
          if truthy price \<and> gt0 price then Some (float_val price)
          else if truthy (bid ticker) \<and> truthy (ask ticker) \<and> gt0 (bid ticker) \<and> gt0 (ask ticker)
            then Some ((float_val (bid ticker) + float_val (ask ticker)) / 2)
          else if truthy (last_trade ticker) \<and> gt0 (last_trade ticker)
            then Some (float_val (last_trade ticker))
          else None)"

section \<open>The trading engine (src/src/trading\_engine.py)\<close>

subsection \<open>The broker client, as the engine sees it\<close>

record Contract =
  con_symbol :: string

record Trade =
  orderId :: int

record Position =
  position :: int
  avgCost :: real

text \<open>
  The engine reaches the broker through six methods of \<^verbatim>\<open>IBKRClient\<close>; each of them
  catches its own exceptions and answers \<^verbatim>\<open>None\<close>, \<^verbatim>\<open>[]\<close> or \<^verbatim>\<open>False\<close>. A call
  is recorded, and what the broker answers may depend on everything asked so far. The
  two clocks are read off the same history.
\<close>

datatype broker_call =
    Get_position string
  | Get_contract string
  | Get_market_price Contract
  | Get_open_orders
  | Cancel_order Trade
  | Place_order Contract string int "order_type option" "real option"

record environment =
  position_res :: "broker_call list \<Rightarrow> Position option"
  contract_res :: "broker_call list \<Rightarrow> Contract option"
  ticker_res :: "broker_call list \<Rightarrow> Ticker option"
  open_orders_res :: "broker_call list \<Rightarrow> Trade list"
  place_res :: "broker_call list \<Rightarrow> Trade option"
  utcnow :: "broker_call list \<Rightarrow> int"
  now_eastern :: "broker_call list \<Rightarrow> eastern_dt"

record config =
  default_quantity :: int
  max_position_size :: int
  limit_order_timeout :: int
  max_resubmissions :: int

text \<open>
  A \<^verbatim>\<open>PendingOrder\<close> is a mutable object that the dictionary and the sweep's work list
  share: the objects live in \<open>heap\<close>, in the order of their creation, and
  \<open>pending_orders\<close> maps a trade id to the index of its object. Trade ids are
  \<^verbatim>\<open>str(orderId)\<close> in the program and the \<open>orderId\<close> itself here. Times are
  microseconds.

  \<open>placed_for\<close> is a history variable that no operation reads: one entry per order
  that the broker accepted on behalf of a \<^verbatim>\<open>PendingOrder\<close> object, naming the object.
\<close>

record PendingOrder =
  trade_id :: int
  po_symbol :: string
  po_action :: string
  po_quantity :: int
  original_price :: "real option"
  submitted_time :: int
  resubmission_count :: int
  last_resubmission :: "int option"

record engine =
  positions :: "(string \<times> PositionInfo) list"
  heap :: "PendingOrder list"
  pending_orders :: "(int \<times> nat) list"
  logged :: "log_entry list"
  calls :: "broker_call list"
  placed_for :: "nat list"

definition init_engine :: engine where
  "init_engine = \<lparr>positions = [], heap = [], pending_orders = [], logged = [], calls = [],
     placed_for = []\<rparr>"

definition log_line :: "log_entry \<Rightarrow> engine \<Rightarrow> engine" where
  "log_line e s = s\<lparr>logged := logged s @ [e]\<rparr>"

definition ibkr_get_position :: "environment \<Rightarrow> engine \<Rightarrow> string \<Rightarrow> Position option \<times> engine" where
  "ibkr_get_position env s sy =
     (let h = calls s @ [Get_position sy] in (position_res env h, s\<lparr>calls := h\<rparr>))"

definition ibkr_get_contract :: "environment \<Rightarrow> engine \<Rightarrow> string \<Rightarrow> Contract option \<times> engine" where
  "ibkr_get_contract env s sy =
     (let h = calls s @ [Get_contract sy] in (contract_res env h, s\<lparr>calls := h\<rparr>))"

definition ibkr_get_market_price :: "environment \<Rightarrow> engine \<Rightarrow> Contract \<Rightarrow> real option \<times> engine" where
  "ibkr_get_market_price env s c =
     (let h = calls s @ [Get_market_price c] in (get_market_price (ticker_res env h), s\<lparr>calls := h\<rparr>))"

definition ibkr_get_open_orders :: "environment \<Rightarrow> engine \<Rightarrow> Trade list \<times> engine" where
  "ibkr_get_open_orders env s =
     (let h = calls s @ [Get_open_orders] in (open_orders_res env h, s\<lparr>calls := h\<rparr>))"

definition ibkr_cancel_order :: "engine \<Rightarrow> Trade \<Rightarrow> engine" where
  "ibkr_cancel_order s t = s\<lparr>calls := calls s @ [Cancel_order t]\<rparr>"

definition ibkr_place_order ::
  "environment \<Rightarrow> engine \<Rightarrow> Contract \<Rightarrow> string \<Rightarrow> int \<Rightarrow> order_type option \<Rightarrow> real option
     \<Rightarrow> Trade option \<times> engine" where
  "ibkr_place_order env s c act qty ot price =
     (let h = calls s @ [Place_order c act qty ot price] in (place_res env h, s\<lparr>calls := h\<rparr>))"

subsection \<open>Limit prices\<close>

text \<open>
  \<^verbatim>\<open>round(x, 2)\<close>: the decimal with two places nearest to \<open>x\<close>, a tie going to the
  even last digit. The program rounds the exact value of a double in this way and
  answers the double nearest to that decimal; here the value is a real and the answer
  the decimal itself.
\<close>

definition py_round2 :: "real \<Rightarrow> real" where
  "py_round2 x =
     (let y = x * 100; f = \<lfloor>y\<rfloor>; d = y - of_int f
      in of_int (if d < 1/2 then f else if d > 1/2 then f + 1
                 else if even f then f else f + 1) / 100)"

definition convert_action_to_ibkr :: "string \<Rightarrow> string" where
  "convert_action_to_ibkr action0 =
     (case map_of [(''BUY'', ''BUY''), (''SELL'', ''SELL''), (''SHORT'', ''SELL''), (''COVER'', ''BUY'')]
            (upper action0) of
        Some a \<Rightarrow> a | None \<Rightarrow> upper action0)"

subsection \<open>Placing and tracking\<close>

definition track_pending_order ::
  "environment \<Rightarrow> engine \<Rightarrow> Trade \<Rightarrow> string \<Rightarrow> string \<Rightarrow> int \<Rightarrow> real option \<Rightarrow> engine" where
  "track_pending_order env s trade sy action0 qty limit_price =
     (let pending_order = \<lparr>trade_id = orderId trade, po_symbol = sy, po_action = action0,
            po_quantity = qty, original_price = limit_price,
            submitted_time = utcnow env (calls s), resubmission_count = 0,
            last_resubmission = None\<rparr>;
          r = length (heap s)
      in log_line (Info_msg ''Tracking pending order'')
           (s\<lparr>heap := heap s @ [pending_order],
              pending_orders := AList.update (trade_id pending_order) r (pending_orders s),
              placed_for := placed_for s @ [r]\<rparr>))"

definition execute_trade ::
  "environment \<Rightarrow> config \<Rightarrow> engine \<Rightarrow> string \<Rightarrow> string \<Rightarrow> int \<Rightarrow> trading_decision \<Rightarrow> bool \<times> engine" where
  "execute_trade env cfg s sy action0 qty decision =
     (case ibkr_get_contract env s sy of
        (None, s1) \<Rightarrow> (False, log_line (Error_msg ''Could not get contract'') s1)
      | (Some contract, s1) \<Rightarrow>
          let ibkr_action = convert_action_to_ibkr action0 in
          if qty > max_position_size cfg
          then (False, log_line (Error_msg ''Quantity exceeds max position size'') s1)
          else
            let order_type = recommended_order_type decision in
            if order_type = Some LMT then
              (case ibkr_get_market_price env s1 contract of
                 (None, s2) \<Rightarrow> (False, log_line (Error_msg ''Could not get market price'') s2)
               | (Some market_price, s2) \<Rightarrow>
                   let buffer = 1 / 1000;
                       limit_price = (if ibkr_action = ''BUY'' then market_price * (1 + buffer)
                                      else market_price * (1 - buffer));
                       limit_price = py_round2 limit_price
                   in (case ibkr_place_order env s2 contract ibkr_action qty order_type
                              (Some limit_price) of
                         (Some trade, s3) \<Rightarrow>
                           (True, track_pending_order env s3 trade sy action0 qty (Some limit_price))
                       | (None, s3) \<Rightarrow> (False, s3)))
            else
              (case ibkr_place_order env s1 contract ibkr_action qty order_type None of
                 (Some trade, s3) \<Rightarrow> (True, s3)
               | (None, s3) \<Rightarrow> (False, s3)))"

subsection \<open>Positions and alerts\<close>

definition update_position :: "environment \<Rightarrow> engine \<Rightarrow> string \<Rightarrow> engine" where
  "update_position env s sy =
     (case ibkr_get_position env s sy of
        (pos, s1) \<Rightarrow>
          let position_info =
                (case pos of
                   Some p \<Rightarrow>
                     if position p \<noteq> 0
                     then mk_PositionInfo sy (if position p > 0 then LONG else SHORT)
                            \<bar>position p\<bar> (avgCost p) (utcnow env (calls s1))
                     else mk_PositionInfo sy FLAT 0 0 (utcnow env (calls s1))
                 | None \<Rightarrow> mk_PositionInfo sy FLAT 0 0 (utcnow env (calls s1)))
          in log_line (Info_position_update sy (quantity position_info) (avg_price position_info))
               (s1\<lparr>positions := AList.update sy position_info (positions s1)\<rparr>))"

text \<open>
  The parsed alert as \<^verbatim>\<open>process_alert\<close> reads it: \<open>alert_quantity\<close> is \<open>None\<close> when
  the dictionary has no \<^verbatim>\<open>quantity\<close>. The session manager is asked without an
  instant, so each of its three lookups reads the clock; no broker call lies between
  them, and they are given the one instant \<open>now_eastern\<close> of the history so far. The
  body's \<^verbatim>\<open>except Exception\<close> has nothing to catch in what is modelled.
\<close>

record alert =
  alert_symbol :: string
  alert_action :: string
  alert_quantity :: "int option"

definition process_alert ::
  "environment \<Rightarrow> config \<Rightarrow> TradingSessionManager \<Rightarrow> engine \<Rightarrow> alert \<Rightarrow> bool \<times> engine" where
  "process_alert env cfg sm s a =
     (let sy = alert_symbol a;
          action0 = alert_action a;
          qty = (case alert_quantity a of Some q \<Rightarrow> q | None \<Rightarrow> default_quantity cfg);
          s0 = log_line (Info_msg ''Processing alert'') s;
          decision = get_trading_decision sm (now_eastern env (calls s0))
      in if \<not> can_trade decision
         then (False, log_line (Warning_msg (''Trading not allowed: '' @ reason decision)) s0)
         else
           let s1 = update_position env s0 sy;
               current_position =
                 (case map_of (positions s1) sy of
                    Some p \<Rightarrow> p
                  | None \<Rightarrow> mk_PositionInfo sy FLAT 0 0 (utcnow env (calls s1)))
           in (case validate_sequential_action current_position action0 of
                 (valid, lines) \<Rightarrow>
                   let s2 = s1\<lparr>logged := logged s1 @ lines\<rparr> in
                   if \<not> valid then (False, s2)
                   else
                     (case execute_trade env cfg s2 sy action0 qty decision of
                        (success, s3) \<Rightarrow>
                          if success
                          then (success, log_line (Info_msg ''Alert processed successfully'') s3)
                          else (success, log_line (Error_msg ''Failed to process alert'') s3))))"

subsection \<open>Broker events\<close>

definition on_fill :: "engine \<Rightarrow> int \<Rightarrow> engine" where
  \<comment> \<open>the position refresh that \<^verbatim>\<open>_on_fill\<close> schedules is \<open>update_position\<close>, run later\<close>
  "on_fill s order_id =
     (let s0 = log_line (Info_msg ''Order filled'') s in
      if order_id \<in> fst ` set (pending_orders s0)
      then log_line (Info_msg ''Removed filled order from pending'')
             (s0\<lparr>pending_orders := AList.delete order_id (pending_orders s0)\<rparr>)
      else s0)"

definition on_order_status :: "engine \<Rightarrow> int \<Rightarrow> string \<Rightarrow> engine" where
  "on_order_status s order_id status =
     (if status \<in> set [''Cancelled'', ''ApiCancelled'', ''Rejected'']
      then if order_id \<in> fst ` set (pending_orders s)
           then log_line (Info_msg ''Removed order from pending'')
                  (s\<lparr>pending_orders := AList.delete order_id (pending_orders s)\<rparr>)
           else s
      else s)"

subsection \<open>The sweep\<close>

definition timed_out :: "config \<Rightarrow> int \<Rightarrow> PendingOrder \<Rightarrow> bool" where
  "timed_out cfg current_time pending_order =
     (let time_since_submission = current_time - submitted_time pending_order;
          time_since_last_resubmission =
            (case last_resubmission pending_order of
               Some l \<Rightarrow> current_time - l
             | None \<Rightarrow> time_since_submission);
          timeout_minutes = limit_order_timeout cfg * 60000000
      in time_since_last_resubmission \<ge> timeout_minutes)"

definition resubmit_order :: "environment \<Rightarrow> engine \<Rightarrow> nat \<Rightarrow> engine" where
  "resubmit_order env s r =
     (let pending_order = heap s ! r in
      case ibkr_get_contract env s (po_symbol pending_order) of
        (None, s1) \<Rightarrow> log_line (Error_msg ''Could not get contract for resubmission'') s1
      | (Some contract, s1) \<Rightarrow>
          (case ibkr_get_market_price env s1 contract of
             (None, s2) \<Rightarrow> log_line (Error_msg ''Could not get market price for resubmission'') s2
           | (Some market_price, s2) \<Rightarrow>
               (case ibkr_get_open_orders env s2 of
                  (open_orders, s3) \<Rightarrow>
                    let s4 = (case find (\<lambda>t. orderId t = trade_id pending_order) open_orders of
                                Some t \<Rightarrow> ibkr_cancel_order s3 t
                              | None \<Rightarrow> s3);
                        ibkr_action = convert_action_to_ibkr (po_action pending_order);
                        buffer = 1 / 1000;
                        new_limit_price = (if ibkr_action = ''BUY'' then market_price * (1 + buffer)
                                           else market_price * (1 - buffer));
                        new_limit_price = py_round2 new_limit_price
                    in (case ibkr_place_order env s4 contract ibkr_action (po_quantity pending_order)
                               (Some LMT) (Some new_limit_price) of
                          (Some new_trade, s5) \<Rightarrow>
                            let old_order_id = trade_id pending_order;
                                pending_order' = pending_order
                                  \<lparr>trade_id := orderId new_trade,
                                   resubmission_count := resubmission_count pending_order + 1,
                                   last_resubmission := Some (utcnow env (calls s5))\<rparr>;
                                s6 = s5\<lparr>heap := (heap s5)[r := pending_order'],
                                        placed_for := placed_for s5 @ [r]\<rparr>
                            in if old_order_id \<notin> fst ` set (pending_orders s6)
                               then log_line (Error_msg ''Error resubmitting order: KeyError'') s6
                               else log_line
                                      (Info_order_resubmitted (trade_id pending_order')
                                         (po_symbol pending_order') new_limit_price
                                         (nat (resubmission_count pending_order')))
                                      (s6\<lparr>pending_orders :=
                                            AList.update (trade_id pending_order') r
                                              (AList.delete old_order_id (pending_orders s6))\<rparr>)
                        | (None, s5) \<Rightarrow> log_line (Error_msg ''Failed to resubmit order'') s5))))"

definition orders_to_resubmit :: "config \<Rightarrow> int \<Rightarrow> engine \<Rightarrow> nat list" where
  "orders_to_resubmit cfg current_time s =
     map snd (filter (\<lambda>(order_id, r).
                  timed_out cfg current_time (heap s ! r) \<and>
                  resubmission_count (heap s ! r) < max_resubmissions cfg)
                (pending_orders s))"

definition check_and_resubmit_orders :: "environment \<Rightarrow> config \<Rightarrow> engine \<Rightarrow> engine" where
  "check_and_resubmit_orders env cfg s =
     (let current_time = utcnow env (calls s)
      in foldl (resubmit_order env) s (orders_to_resubmit cfg current_time s))"

section \<open>The order monitor (src/src/order\_manager.py)\<close>

datatype py_exception =
    ValueError string
  | AttributeError
  | TypeError
  | KeyError
  | ZeroDivisionError

record order_record =
  or_order_id :: string
  or_symbol :: string
  or_action :: string
  or_quantity :: int
  or_order_type :: string
  or_price :: "real option"
  placed_time :: "int option"
  or_status :: string
  fill_time :: "int option"
  fill_price :: "real option"
  or_resubmission_count :: int

record order_stats =
  total_orders :: int
  filled_orders :: int
  cancelled_orders :: int
  rejected_orders :: int
  resubmitted_orders :: int
  avg_fill_time_seconds :: real

record OrderMonitor =
  stats :: order_stats
  order_history :: "order_record list"
  max_history_size :: nat

definition new_OrderMonitor :: OrderMonitor where
  "new_OrderMonitor =
     \<lparr>stats = \<lparr>total_orders = 0, filled_orders = 0, cancelled_orders = 0, rejected_orders = 0,
               resubmitted_orders = 0, avg_fill_time_seconds = 0\<rparr>,
      order_history = [], max_history_size = 1000\<rparr>"

definition add_to_history :: "OrderMonitor \<Rightarrow> order_record \<Rightarrow> OrderMonitor" where
  "add_to_history om r =
     (let h = order_history om @ [r] in
      om\<lparr>order_history :=
           (if length h > max_history_size om then drop (length h - max_history_size om) h else h)\<rparr>)"

definition record_order_placed ::
  "OrderMonitor \<Rightarrow> int \<Rightarrow> string \<Rightarrow> string \<Rightarrow> string \<Rightarrow> int \<Rightarrow> string \<Rightarrow> real option \<Rightarrow> OrderMonitor" where
  "record_order_placed om now oid sy act qty ot price =
     (let order_record = \<lparr>or_order_id = oid, or_symbol = sy, or_action = act, or_quantity = qty,
            or_order_type = ot, or_price = price, placed_time = Some now, or_status = ''placed'',
            fill_time = None, fill_price = None, or_resubmission_count = 0\<rparr>;
          om1 = add_to_history om order_record
      in om1\<lparr>stats := (stats om1)\<lparr>total_orders := total_orders (stats om1) + 1\<rparr>\<rparr>)"

text \<open>
  \<^verbatim>\<open>_update_avg_fill_time\<close>: the divisor is the counter as it stands when the method
  runs; Python raises \<^verbatim>\<open>ZeroDivisionError\<close> on a zero divisor.
\<close>

definition update_avg_fill_time :: "OrderMonitor \<Rightarrow> real \<Rightarrow> py_exception + OrderMonitor" where
  "update_avg_fill_time om fill_duration_seconds =
     (let filled_count = filled_orders (stats om);
          current_avg = avg_fill_time_seconds (stats om)
      in if filled_count = 0 then Inl ZeroDivisionError
         else Inr (om\<lparr>stats := (stats om)\<lparr>avg_fill_time_seconds :=
                ((current_avg * (of_int filled_count - 1)) + fill_duration_seconds)
                  / of_int filled_count\<rparr>\<rparr>))"

text \<open>
  The loop of \<^verbatim>\<open>record_order_filled\<close> over \<^verbatim>\<open>reversed(self.order_history)\<close>, on the
  reversed list: the first record with the order id is marked filled, and the loop ends
  there, with the duration to average when the record has a \<^verbatim>\<open>placed_time\<close>. Times
  are microseconds, durations seconds.
\<close>

fun mark_filled ::
  "string \<Rightarrow> real \<Rightarrow> int \<Rightarrow> order_record list \<Rightarrow> order_record list \<times> real option" where
  "mark_filled oid fp ft [] = ([], None)"
| "mark_filled oid fp ft (r # rs) =
     (if or_order_id r = oid
      then (r\<lparr>or_status := ''filled'', fill_time := Some ft, fill_price := Some fp\<rparr> # rs,
            (case placed_time r of
               Some pt \<Rightarrow> Some (real_of_int (ft - pt) / 1000000)
             | None \<Rightarrow> None))
      else (case mark_filled oid fp ft rs of (rs', d) \<Rightarrow> (r # rs', d)))"

text \<open>
  \<^verbatim>\<open>record_order_filled\<close> returns the monitor as the call leaves it, and the
  exception when the call raises: the record is marked before the average is updated,
  and the counter is incremented after the loop.
\<close>

definition record_order_filled ::
  "OrderMonitor \<Rightarrow> string \<Rightarrow> real \<Rightarrow> int \<Rightarrow> py_exception option \<times> OrderMonitor" where
  "record_order_filled om oid fp ft =
     (case mark_filled oid fp ft (rev (order_history om)) of
        (rev_history, duration) \<Rightarrow>
          let om1 = om\<lparr>order_history := rev rev_history\<rparr> in
          (case (case duration of
                   Some fill_duration \<Rightarrow> update_avg_fill_time om1 fill_duration
                 | None \<Rightarrow> Inr om1) of
             Inl e \<Rightarrow> (Some e, om1)
           | Inr om2 \<Rightarrow>
               (None, om2\<lparr>stats := (stats om2)\<lparr>filled_orders := filled_orders (stats om2) + 1\<rparr>\<rparr>)))"

section \<open>The webhook (src/src/webhook.py)\<close>
























section \<open>Notions used in the statements\<close>

subsection \<open>Alert processing up to the validator\<close>

text \<open>
  \<^verbatim>\<open>process_alert\<close> refreshes the position of the alert's symbol before it validates:
  \<open>refreshed\<close> is the engine after that refresh, \<open>position_seen\<close> the
  \<^verbatim>\<open>current_position\<close> handed to the validator.
\<close>

definition refreshed :: "environment \<Rightarrow> engine \<Rightarrow> alert \<Rightarrow> engine" where
  "refreshed env s a =
     update_position env (log_line (Info_msg ''Processing alert'') s) (alert_symbol a)"

definition position_seen :: "environment \<Rightarrow> engine \<Rightarrow> alert \<Rightarrow> PositionInfo" where
  "position_seen env s a =
     (case map_of (positions (refreshed env s a)) (alert_symbol a) of
        Some p \<Rightarrow> p
      | None \<Rightarrow> mk_PositionInfo (alert_symbol a) FLAT 0 0 (utcnow env (calls (refreshed env s a))))"

subsection \<open>Prices\<close>

definition is_positive :: "pynum \<Rightarrow> bool" where
  \<comment> \<open>the specification's "positive": a number, and above zero\<close>
  "is_positive x = (case x of Num v \<Rightarrow> v > 0 | _ \<Rightarrow> False)"


subsection \<open>Engine states\<close>



definition replaced :: "PendingOrder \<Rightarrow> Trade \<Rightarrow> int \<Rightarrow> PendingOrder" where
  \<comment> \<open>the object after a successful replace\<close>
  "replaced p t u = p\<lparr>trade_id := orderId t, resubmission_count := resubmission_count p + 1,
                      last_resubmission := Some u\<rparr>"

text \<open>
  The engine states that the program can be in: it starts empty, and alerts, sweeps,
  fill and status events and position refreshes follow each other in any order, the
  broker answering as it likes.
\<close>

inductive reachable :: "config \<Rightarrow> TradingSessionManager \<Rightarrow> engine \<Rightarrow> bool"
  for cfg :: config and sm :: TradingSessionManager where
  start: "reachable cfg sm init_engine"
| alert: "reachable cfg sm s \<Longrightarrow> reachable cfg sm (snd (process_alert env cfg sm s a))"
| sweep: "reachable cfg sm s \<Longrightarrow> reachable cfg sm (check_and_resubmit_orders env cfg s)"
| fill: "reachable cfg sm s \<Longrightarrow> reachable cfg sm (on_fill s order_id)"
| status: "reachable cfg sm s \<Longrightarrow> reachable cfg sm (on_order_status s order_id st)"
| refresh: "reachable cfg sm s \<Longrightarrow> reachable cfg sm (update_position env s sy)"

subsection \<open>A concrete run\<close>

text \<open>
  The shipped settings, and a broker holding 50 MSFT that quotes 310.00, accepts every
  order under a fresh id above 1000 and has no open orders; it is Tuesday 05:00 at the exchange,
  and ten minutes past the UTC origin.
\<close>

definition cfg0 :: config where
  "cfg0 = \<lparr>default_quantity = 100, max_position_size = 1000, limit_order_timeout = 5,
           max_resubmissions = 3\<rparr>"

definition sm0 :: TradingSessionManager where
  "sm0 = \<lparr>market_hours = default_hours, enable_pre_market = True, enable_post_market = True\<rparr>"

definition sm_no_pre :: TradingSessionManager where
  "sm_no_pre = \<lparr>market_hours = default_hours, enable_pre_market = False, enable_post_market = True\<rparr>"

definition env0 :: environment where
  "env0 = \<lparr>position_res = (\<lambda>h. Some \<lparr>position = 50, avgCost = 300\<rparr>),
           contract_res = (\<lambda>h. Some \<lparr>con_symbol = ''MSFT''\<rparr>),
           ticker_res = (\<lambda>h. Some \<lparr>marketPrice = Num 310, bid = NaN, ask = NaN, last_trade = NaN\<rparr>),
           open_orders_res = (\<lambda>h. []),
           place_res = (\<lambda>h. Some \<lparr>orderId = 1000 + int (length h)\<rparr>),
           utcnow = (\<lambda>h. 600000000),
           now_eastern = (\<lambda>h. tuesday_at 5 0)\<rparr>"


definition buy_msft :: alert where
  "buy_msft = \<lparr>alert_symbol = ''MSFT'', alert_action = ''buy'', alert_quantity = Some 50\<rparr>"



text \<open>A monitor that has seen one order placed, and a webhook request with an unknown action.\<close>

definition one_placed :: OrderMonitor where
  "one_placed = record_order_placed new_OrderMonitor 0 ''1'' ''AAPL'' ''BUY'' 100 ''MKT'' None"













section \<open>Verified properties\<close>

subsection \<open>Sessions\<close>

lemma time_le_iff_not_lt: "time_le a b \<longleftrightarrow> \<not> time_lt b a"
  by (auto simp: time_le_def time_lt_def)

lemma time_lt_trans: "time_lt a b \<Longrightarrow> time_lt b c \<Longrightarrow> time_lt a c"
  by (auto simp: time_lt_def)

lemma time_lt_irrefl: "\<not> time_lt a a"
  by (simp add: time_lt_def)

text \<open>
  Claim C7. With boundaries in their configured order
  \<open>pre_market_start < market_open < market_close < post_market_end\<close>, an instant
  of the exchange's Saturday or Sunday is \<open>CLOSED\<close>; on the other days the session is
  \<open>PRE_MARKET\<close> exactly on \<open>[pre_market_start, market_open)\<close>, \<open>MARKET\<close> exactly
  on \<open>[market_open, market_close)\<close>, \<open>POST_MARKET\<close> exactly on
  \<open>[market_close, post_market_end)\<close> and \<open>CLOSED\<close> elsewhere, so that each
  boundary instant belongs to the session that starts there.
\<close>

theorem session_half_open:
  assumes o1: "time_lt (pre_market_start mh) (market_open mh)"
      and o2: "time_lt (market_open mh) (market_close mh)"
      and o3: "time_lt (market_close mh) (post_market_end mh)"
  shows "(weekday dt = 5 \<or> weekday dt = 6 \<longrightarrow> get_current_session mh dt = CLOSED) \<and>
         (weekday dt < 5 \<longrightarrow>
           (get_current_session mh dt = PRE_MARKET \<longleftrightarrow>
              time_le (pre_market_start mh) (time_of_day dt) \<and> time_lt (time_of_day dt) (market_open mh)) \<and>
           (get_current_session mh dt = MARKET \<longleftrightarrow>
              time_le (market_open mh) (time_of_day dt) \<and> time_lt (time_of_day dt) (market_close mh)) \<and>
           (get_current_session mh dt = POST_MARKET \<longleftrightarrow>
              time_le (market_close mh) (time_of_day dt) \<and> time_lt (time_of_day dt) (post_market_end mh)) \<and>
           (get_current_session mh dt = CLOSED \<longleftrightarrow>
              time_lt (time_of_day dt) (pre_market_start mh) \<or> time_le (post_market_end mh) (time_of_day dt)) \<and>
           (time_of_day dt = pre_market_start mh \<longrightarrow> get_current_session mh dt = PRE_MARKET) \<and>
           (time_of_day dt = market_open mh \<longrightarrow> get_current_session mh dt = MARKET) \<and>
           (time_of_day dt = market_close mh \<longrightarrow> get_current_session mh dt = POST_MARKET) \<and>
           (time_of_day dt = post_market_end mh \<longrightarrow> get_current_session mh dt = CLOSED))"
proof -
  have a: "time_lt (pre_market_start mh) (market_close mh)" using time_lt_trans[OF o1 o2] .
  have b: "time_lt (market_open mh) (post_market_end mh)" using time_lt_trans[OF o2 o3] .
  have c: "time_lt (pre_market_start mh) (post_market_end mh)" using time_lt_trans[OF a o3] .
  show ?thesis
    using o1 o2 o3 a b c
    by (auto simp: get_current_session_def Let_def time_le_iff_not_lt time_lt_irrefl dest: time_lt_trans)
qed

theorem session_half_open_witness:
  "time_lt (pre_market_start default_hours) (market_open default_hours) \<and>
   time_lt (market_open default_hours) (market_close default_hours) \<and>
   time_lt (market_close default_hours) (post_market_end default_hours) \<and>
   weekday (tuesday_at 16 0) < 5 \<and>
   time_of_day (tuesday_at 16 0) = market_close default_hours \<and>
   get_current_session default_hours (tuesday_at 16 0) = POST_MARKET"
proof -
  have o1: "time_lt (pre_market_start default_hours) (market_open default_hours)"
    and o2: "time_lt (market_open default_hours) (market_close default_hours)"
    and o3: "time_lt (market_close default_hours) (post_market_end default_hours)"
    by (simp_all add: default_hours_def hhmm_def time_lt_def)
  have w: "weekday (tuesday_at 16 0) < 5"
    and t: "time_of_day (tuesday_at 16 0) = market_close default_hours"
    by (simp_all add: tuesday_at_def default_hours_def)
  from session_half_open[OF o1 o2 o3, of "tuesday_at 16 0"] w t
  have "get_current_session default_hours (tuesday_at 16 0) = POST_MARKET" by blast
  with o1 o2 o3 w t show ?thesis by blast
qed

text \<open>
  Claim C2, as the program has it. The decision is \<open>(True, MKT)\<close> in the regular
  session, \<open>(False, None)\<close> when closed, and in the pre- and post-market sessions it
  is \<open>(True, LMT)\<close> when the session's flag is set and \<open>(False, None)\<close> when it is
  not: the order type is computed only for a tradable instant.
\<close>

theorem decision_policy:
  "(can_trade (get_trading_decision sm dt), recommended_order_type (get_trading_decision sm dt)) =
     (case get_current_session (market_hours sm) dt of
        MARKET \<Rightarrow> (True, Some MKT)
      | PRE_MARKET \<Rightarrow> (enable_pre_market sm, if enable_pre_market sm then Some LMT else None)
      | POST_MARKET \<Rightarrow> (enable_post_market sm, if enable_post_market sm then Some LMT else None)
      | CLOSED \<Rightarrow> (False, None))"
  by (simp add: get_trading_decision_def can_trade_now_def get_order_type_def Let_def
           split: MarketSession.split)

lemma pre_market_at_five: "get_current_session default_hours (tuesday_at 5 0) = PRE_MARKET"
  by (simp add: get_current_session_def default_hours_def tuesday_at_def hhmm_def
        time_lt_def time_le_def)

theorem decision_policy_witness:
  "(can_trade (get_trading_decision sm_no_pre (tuesday_at 5 0)),
    recommended_order_type (get_trading_decision sm_no_pre (tuesday_at 5 0))) = (False, None)"
  using decision_policy[of sm_no_pre "tuesday_at 5 0"] pre_market_at_five
  by (simp add: sm_no_pre_def)

text \<open>
  Claim C2 as stated fails: on a pre-market instant with pre-market trading disabled the
  decision carries no order type, not \<open>LMT\<close>.
\<close>

theorem decision_pre_disabled_counterexample:
  "get_current_session (market_hours sm_no_pre) (tuesday_at 5 0) = PRE_MARKET \<and>
   \<not> enable_pre_market sm_no_pre \<and>
   recommended_order_type (get_trading_decision sm_no_pre (tuesday_at 5 0)) \<noteq> Some LMT"
  using pre_market_at_five
  by (simp add: sm_no_pre_def get_trading_decision_def can_trade_now_def Let_def)

subsection \<open>Sequential validation\<close>

lemma process_alert_rejected:
  assumes "can_trade (get_trading_decision sm (now_eastern env (calls s)))"
  and "\<not> fst (validate_sequential_action (position_seen env s a) (alert_action a))"
  shows "process_alert env cfg sm s a =
     (False, (refreshed env s a)\<lparr>logged := logged (refreshed env s a) @
        snd (validate_sequential_action (position_seen env s a) (alert_action a))\<rparr>)"
proof (cases "validate_sequential_action (position_seen env s a) (alert_action a)")
  case (Pair valid lines)
  with assms show ?thesis
    unfolding process_alert_def position_seen_def refreshed_def log_line_def Let_def
    by simp
qed

text \<open>
  Claim C1. The validator accepts exactly the pairs \<open>(FLAT, BUY)\<close>, \<open>(FLAT, SHORT)\<close>,
  \<open>(LONG, SELL)\<close> and \<open>(SHORT, COVER)\<close> of position state and upper-cased action.
  A rejection logs the attempted transition and answers \<open>False\<close>, and
  \<^verbatim>\<open>process_alert\<close> then returns \<open>False\<close> with the engine as the position refresh
  left it, but for that log line: no position, pending order or broker call is added.
\<close>

theorem sequential_validation:
  "(fst (validate_sequential_action p a) \<longleftrightarrow>
      (state p, upper a) \<in> {(FLAT, ''BUY''), (FLAT, ''SHORT''), (LONG, ''SELL''), (SHORT, ''COVER'')}) \<and>
   (\<not> fst (validate_sequential_action p a) \<longrightarrow>
      snd (validate_sequential_action p a) = [Error_invalid_action (upper a) (state p) (symbol p)]) \<and>
   (can_trade (get_trading_decision sm (now_eastern env (calls s))) \<and>
    \<not> fst (validate_sequential_action (position_seen env s al) (alert_action al)) \<longrightarrow>
      process_alert env cfg sm s al =
        (False, (refreshed env s al)\<lparr>logged := logged (refreshed env s al) @
           [Error_invalid_action (upper (alert_action al)) (state (position_seen env s al))
              (symbol (position_seen env s al))]\<rparr>))"
proof -
  have tab: "\<And>p a. fst (validate_sequential_action p a) \<longleftrightarrow>
      (state p, upper a) \<in> {(FLAT, ''BUY''), (FLAT, ''SHORT''), (LONG, ''SELL''), (SHORT, ''COVER'')}"
    subgoal for p a
      by (cases "state p") (auto simp: validate_sequential_action_def valid_transitions_def Let_def)
    done
  have lg: "\<And>p a. \<not> fst (validate_sequential_action p a) \<Longrightarrow>
      snd (validate_sequential_action p a) = [Error_invalid_action (upper a) (state p) (symbol p)]"
    by (auto simp: validate_sequential_action_def Let_def split: if_splits)
  show ?thesis
    using tab[of p a] lg[of p a] lg[of "position_seen env s al" "alert_action al"]
      process_alert_rejected[of sm env s al cfg]
    by auto
qed

lemma position_seen_long: "position_seen env0 init_engine buy_msft =
   \<lparr>symbol = ''MSFT'', state = LONG, quantity = 50, avg_price = 300, last_updated = 600000000\<rparr>"
  by (simp add: position_seen_def refreshed_def update_position_def ibkr_get_position_def
        log_line_def init_engine_def env0_def buy_msft_def mk_PositionInfo_def Let_def)

theorem sequential_validation_witness:
  "can_trade (get_trading_decision sm0 (now_eastern env0 (calls init_engine))) \<and>
   \<not> fst (validate_sequential_action (position_seen env0 init_engine buy_msft) (alert_action buy_msft)) \<and>
   fst (process_alert env0 cfg0 sm0 init_engine buy_msft) = False \<and>
   pending_orders (snd (process_alert env0 cfg0 sm0 init_engine buy_msft)) = [] \<and>
   calls (snd (process_alert env0 cfg0 sm0 init_engine buy_msft)) = [Get_position ''MSFT'']"
proof -
  have c: "can_trade (get_trading_decision sm0 (now_eastern env0 (calls init_engine)))"
    using pre_market_at_five
    by (simp add: env0_def sm0_def get_trading_decision_def can_trade_now_def Let_def)
  have up: "upper (alert_action buy_msft) = ''BUY''"
    by (simp add: buy_msft_def upper_def upper_char_def)
  from sequential_validation[of "position_seen env0 init_engine buy_msft" "alert_action buy_msft"
      sm0 env0 init_engine buy_msft cfg0]
  have r: "\<not> fst (validate_sequential_action (position_seen env0 init_engine buy_msft) (alert_action buy_msft))"
    by (simp add: position_seen_long up)
  from sequential_validation[of "position_seen env0 init_engine buy_msft" "alert_action buy_msft"
      sm0 env0 init_engine buy_msft cfg0] c r
  have "process_alert env0 cfg0 sm0 init_engine buy_msft =
        (False, (refreshed env0 init_engine buy_msft)\<lparr>logged := logged (refreshed env0 init_engine buy_msft) @
           [Error_invalid_action (upper (alert_action buy_msft)) (state (position_seen env0 init_engine buy_msft))
              (symbol (position_seen env0 init_engine buy_msft))]\<rparr>)" by blast
  then show ?thesis using c r
    by (simp add: refreshed_def update_position_def ibkr_get_position_def
        log_line_def init_engine_def buy_msft_def Let_def)
qed

subsection \<open>Quotes\<close>

lemma truthy_gt0: "truthy x \<and> gt0 x \<longleftrightarrow> is_positive x"
  by (cases x) (auto simp: is_positive_def)

lemma is_positive_Num [simp]: "is_positive (Num v) \<longleftrightarrow> v > 0"
  by (simp add: is_positive_def)

text \<open>
  Claim C8. The reference price is the consolidated market price when that is a positive
  number; otherwise the midpoint \<open>(bid + ask) / 2\<close> when bid and ask are both positive;
  otherwise the last trade price when it is positive; otherwise there is no price. An
  exception while the ticker is read gives no price either.
\<close>

theorem quote_preference:
  "(marketPrice tk = Num p \<and> p > 0 \<longrightarrow> get_market_price (Some tk) = Some p) \<and>
   (\<not> is_positive (marketPrice tk) \<and> bid tk = Num b \<and> b > 0 \<and> ask tk = Num a \<and> a > 0 \<longrightarrow>
      get_market_price (Some tk) = Some ((b + a) / 2)) \<and>
   (\<not> is_positive (marketPrice tk) \<and> \<not> (is_positive (bid tk) \<and> is_positive (ask tk)) \<and>
    last_trade tk = Num l \<and> l > 0 \<longrightarrow>
      get_market_price (Some tk) = Some l) \<and>
   (\<not> is_positive (marketPrice tk) \<and> \<not> (is_positive (bid tk) \<and> is_positive (ask tk)) \<and>
    \<not> is_positive (last_trade tk) \<longrightarrow>
      get_market_price (Some tk) = None) \<and>
   get_market_price None = None"
  using truthy_gt0[of "marketPrice tk"] truthy_gt0[of "bid tk"] truthy_gt0[of "ask tk"]
    truthy_gt0[of "last_trade tk"]
  by (auto simp: get_market_price_def Let_def)

theorem quote_preference_witness:
  "\<not> is_positive (marketPrice \<lparr>marketPrice = NaN, bid = Num 10, ask = Num 12, last_trade = Num 9\<rparr>) \<and>
   get_market_price (Some \<lparr>marketPrice = NaN, bid = Num 10, ask = Num 12, last_trade = Num 9\<rparr>) = Some 11"
  using quote_preference[of "\<lparr>marketPrice = NaN, bid = Num 10, ask = Num 12, last_trade = Num 9\<rparr>" 0 10 12 9]
  by (simp add: is_positive_def)

lemma get_market_price_positive: "get_market_price tk = Some q \<Longrightarrow> q > 0"
  apply (cases tk)
   apply (simp add: get_market_price_def)
  subgoal for t
    apply (cases "marketPrice t"; cases "bid t"; cases "ask t"; cases "last_trade t")
    by (auto simp: get_market_price_def Let_def split: if_splits)
  done

subsection \<open>The order monitor\<close>

text \<open>
  Claim C10 does not hold of the program: the counter that divides is read before it is
  incremented. On a monitor that has recorded one placed order and no fill, the fill of
  that order finds the counter at zero, and \<^verbatim>\<open>record_order_filled\<close> raises
  \<^verbatim>\<open>ZeroDivisionError\<close>, leaving the counter at zero.
\<close>

theorem first_fill_divides_by_zero:
  "filled_orders (stats one_placed) = 0 \<and>
   fst (record_order_filled one_placed ''1'' 150 2000000) = Some ZeroDivisionError \<and>
   filled_orders (stats (snd (record_order_filled one_placed ''1'' 150 2000000))) = 0"
  by (simp add: one_placed_def record_order_filled_def record_order_placed_def new_OrderMonitor_def
        add_to_history_def update_avg_fill_time_def Let_def)

subsection \<open>The webhook\<close>










subsection \<open>Limit prices\<close>
















lemma execute_trade_oversized:
  assumes "qty > max_position_size cfg"
  shows "fst (execute_trade env cfg s sy act qty d) = False \<and>
         calls (snd (execute_trade env cfg s sy act qty d)) = calls s @ [Get_contract sy] \<and>
         pending_orders (snd (execute_trade env cfg s sy act qty d)) = pending_orders s \<and>
         heap (snd (execute_trade env cfg s sy act qty d)) = heap s \<and>
         placed_for (snd (execute_trade env cfg s sy act qty d)) = placed_for s \<and>
         positions (snd (execute_trade env cfg s sy act qty d)) = positions s"
  using assms
  by (auto simp: execute_trade_def ibkr_get_contract_def Let_def log_line_def
      split: option.splits prod.splits)

text \<open>
  Claim C3, as the program has it. A quantity above \<open>max_position_size\<close> is rejected
  after the symbol has been qualified, not before: the executor answers \<open>False\<close>, the
  qualification is the one broker call it has made, no quote is asked and no order
  placed, and the tracker and the positions are as before.
\<close>

theorem oversized_rejected_after_qualify:
  assumes "qty > max_position_size cfg"
  shows "fst (execute_trade env cfg s sy act qty d) = False \<and>
         calls (snd (execute_trade env cfg s sy act qty d)) = calls s @ [Get_contract sy] \<and>
         pending_orders (snd (execute_trade env cfg s sy act qty d)) = pending_orders s \<and>
         heap (snd (execute_trade env cfg s sy act qty d)) = heap s \<and>
         positions (snd (execute_trade env cfg s sy act qty d)) = positions s"
  using execute_trade_oversized[OF assms] by blast

theorem oversized_rejected_after_qualify_witness:
  "1001 > max_position_size cfg0 \<and>
   fst (execute_trade env0 cfg0 init_engine ''MSFT'' ''sell'' 1001
          (get_trading_decision sm0 (tuesday_at 10 0))) = False \<and>
   calls (snd (execute_trade env0 cfg0 init_engine ''MSFT'' ''sell'' 1001
          (get_trading_decision sm0 (tuesday_at 10 0)))) = [Get_contract ''MSFT'']"
proof -
  have h: "1001 > max_position_size cfg0" by (simp add: cfg0_def)
  from oversized_rejected_after_qualify[OF h, of env0 init_engine "''MSFT''" "''sell''"
      "get_trading_decision sm0 (tuesday_at 10 0)"] h
  show ?thesis by (simp add: init_engine_def)
qed

text \<open>
  Claim C3 as stated fails: for the quantity 2000, above the cap of 1000, the executor
  has asked the broker to qualify the symbol before it rejects.
\<close>

theorem oversized_qualifies_first_counterexample:
  "2000 > max_position_size cfg0 \<and>
   Get_contract ''MSFT'' \<in> set (calls (snd (execute_trade env0 cfg0 init_engine ''MSFT'' ''sell'' 2000
          (get_trading_decision sm0 (tuesday_at 5 0)))))"
  by (simp add: execute_trade_def ibkr_get_contract_def Let_def log_line_def cfg0_def env0_def
      init_engine_def)

subsection \<open>The pending-order tracker\<close>

lemmas ibkr_defs = ibkr_get_contract_def ibkr_get_market_price_def ibkr_get_open_orders_def
  ibkr_cancel_order_def ibkr_place_order_def ibkr_get_position_def

text \<open>What one call of \<^verbatim>\<open>_resubmit_order\<close> does to the tracker.\<close>

lemma resubmit_order_effect:
  "(heap (resubmit_order env s r) = heap s \<and>
    pending_orders (resubmit_order env s r) = pending_orders s \<and>
    placed_for (resubmit_order env s r) = placed_for s \<and>
    positions (resubmit_order env s r) = positions s) \<or>
   (\<exists>t u h. place_res env h = Some t \<and>
      heap (resubmit_order env s r) = (heap s)[r := replaced (heap s ! r) t u] \<and>
      placed_for (resubmit_order env s r) = placed_for s @ [r] \<and>
      positions (resubmit_order env s r) = positions s \<and>
      pending_orders (resubmit_order env s r) =
         (if trade_id (heap s ! r) \<in> fst ` set (pending_orders s)
          then AList.update (orderId t) r (AList.delete (trade_id (heap s ! r)) (pending_orders s))
          else pending_orders s))"
  unfolding resubmit_order_def ibkr_defs Let_def log_line_def replaced_def
  by (simp split: option.split prod.split) blast







lemma length_heap_resubmit [simp]: "length (heap (resubmit_order env s r)) = length (heap s)"
  using resubmit_order_effect[of env s r] by auto



























end
